theory Spec2Isabelle
  imports Main "HOL-Library.Word"
begin

unbundle bit_operations_syntax

section \<open>The Boogie abstract syntax built by the encoder\<close>

text \<open>
  \<open>ASTBoogieUtils.cpp\<close> builds Boogie expression and statement trees through the
  factory functions \<open>Expr::plus\<close>, \<open>Expr::cond\<close>, \<open>Stmt::assume\<close>, ... and through the
  bit-vector constructors of the translation context. An \<open>Expr::Ref\<close> is a shared
  pointer, so it can be null: \<open>Nullptr\<close> is the null reference. Widths are C++
  \<open>unsigned\<close> values, modelled as 32-bit words, so that \<open>bits - 1\<close> wraps as it does
  in the source.
\<close>

datatype BvOp =
    BvAdd | BvSub | BvMul | BvSDiv | BvUDiv
  | BvAnd | BvOr | BvXor | BvAShr | BvLShr | BvShl
  | BvSlt | BvUlt | BvSgt | BvUgt | BvSle | BvUle | BvSge | BvUge

datatype BvUnOp = BvNeg | BvNot

datatype Expr =
    Nullptr
  | IntLit int
  | BoolLit bool
  | BvLit int "32 word"
  | Id string
  | ArrSel Expr Expr
  | ArrUpd Expr Expr Expr
  | Plus Expr Expr
  | Minus Expr Expr
  | Times Expr Expr
  | IntDiv Expr Expr
  | Mod Expr Expr
  | Lt Expr Expr
  | Gt Expr Expr
  | Lte Expr Expr
  | Gte Expr Expr
  | Eq Expr Expr
  | And Expr Expr
  | Neg Expr
  | Cond Expr Expr Expr
  | Tuple "Expr list"
  | BvBin BvOp "32 word" Expr Expr
  | BvUn BvUnOp "32 word" Expr
  | BvZeroExt Expr "32 word" "32 word"
  | BvSignExt Expr "32 word" "32 word"

datatype Stmt =
    Assume Expr
  | Assign Expr Expr
  | IfElse Expr "Stmt list" "Stmt list"
  | Comment string

text \<open>The operator tokens of the source language (\<open>langutil::Token\<close>).\<close>

datatype Token =
    Comma | Or | And_tok | BitOr | BitXor | BitAnd | SHL | SAR | SHR
  | Add | Sub | Mul | Div | Mod_tok | Exp
  | Equal | NotEqual | LessThan | GreaterThan | LessThanOrEqual | GreaterThanOrEqual
  | Assign_tok | AssignBitOr | AssignBitXor | AssignBitAnd | AssignShl | AssignSar
  | AssignShr | AssignAdd | AssignSub | AssignMul | AssignDiv | AssignMod
  | Not | BitNot | Inc | Dec | Delete

text \<open>
  Modelled from the spec: \<open>TokenTraits::toString\<close> (liblangutil/Token.h is not among
  the sources); the error messages identify the operator by its source spelling.
\<close>

fun TokenTraits_toString :: "Token \<Rightarrow> string" where
  "TokenTraits_toString Comma = '',''"
| "TokenTraits_toString Or = ''||''"
| "TokenTraits_toString And_tok = ''&&''"
| "TokenTraits_toString BitOr = ''|''"
| "TokenTraits_toString BitXor = ''^''"
| "TokenTraits_toString BitAnd = ''&''"
| "TokenTraits_toString SHL = ''<<''"
| "TokenTraits_toString SAR = ''>>''"
| "TokenTraits_toString SHR = ''>>>''"
| "TokenTraits_toString Add = ''+''"
| "TokenTraits_toString Sub = ''-''"
| "TokenTraits_toString Mul = ''*''"
| "TokenTraits_toString Div = ''/''"
| "TokenTraits_toString Mod_tok = ''%''"
| "TokenTraits_toString Exp = ''**''"
| "TokenTraits_toString Equal = ''==''"
| "TokenTraits_toString NotEqual = ''!=''"
| "TokenTraits_toString LessThan = ''<''"
| "TokenTraits_toString GreaterThan = ''>''"
| "TokenTraits_toString LessThanOrEqual = ''<=''"
| "TokenTraits_toString GreaterThanOrEqual = ''>=''"
| "TokenTraits_toString Assign_tok = ''=''"
| "TokenTraits_toString AssignBitOr = ''|=''"
| "TokenTraits_toString AssignBitXor = ''^=''"
| "TokenTraits_toString AssignBitAnd = ''&=''"
| "TokenTraits_toString AssignShl = ''<<=''"
| "TokenTraits_toString AssignSar = ''>>=''"
| "TokenTraits_toString AssignShr = ''>>>=''"
| "TokenTraits_toString AssignAdd = ''+=''"
| "TokenTraits_toString AssignSub = ''-=''"
| "TokenTraits_toString AssignMul = ''*=''"
| "TokenTraits_toString AssignDiv = ''/=''"
| "TokenTraits_toString AssignMod = ''%=''"
| "TokenTraits_toString Not = ''!''"
| "TokenTraits_toString BitNot = ''~''"
| "TokenTraits_toString Inc = ''++''"
| "TokenTraits_toString Dec = ''--''"
| "TokenTraits_toString Delete = ''delete''"

section \<open>The translation context\<close>

datatype Encoding = Encoding_INT | Encoding_BV | Encoding_MOD

type_synonym ASTNode = nat

text \<open>
  \<open>BoogieContext\<close> is declared outside \<open>ASTBoogieUtils.cpp\<close>. The encoder reads from it
  the arithmetic encoding, the overflow flag, the identifiers of \<open>this\<close>,
  \<open>msg.sender\<close>, \<open>msg.value\<close> and the balance map with their Boogie types, and the
  Boogie types it computes (\<open>intType\<close>, \<open>boolType\<close>); these are fields of the record.
  \<open>callReturnTypes\<close> is what \<open>toBoogieType\<close> gives for the return parameter types of the
  member \<open>call\<close> of the address type (\<open>None\<close> when that member is not a function, the
  case of the first \<open>solAssert\<close> in \<open>createCallProc\<close>). \<open>errors\<close> is the
  diagnostics sink behind \<open>reportError\<close>. \<open>convert_to_unsigned\<close> stands for the
  big-integer library's \<open>convert_to<unsigned>()\<close>, whose result outside
  \<open>[0, 2^32)\<close> depends on the library version: it is a parameter too.
\<close>

record BoogieContext =
  encoding :: Encoding
  overflow :: bool
  boogieThis :: string
  boogieThisType :: string
  boogieMsgSender :: string
  boogieMsgSenderType :: string
  boogieMsgValue :: string
  boogieMsgValueType :: string
  boogieBalance :: string
  intType :: "32 word \<Rightarrow> string"
  boolType :: string
  callReturnTypes :: "string list option"
  convert_to_unsigned :: "int \<Rightarrow> nat"
  errors :: "(ASTNode option \<times> string) list"

text \<open>
  Modelled from the spec: \<open>BoogieContext::reportError\<close> (not among the sources) makes
  one error-reporting call to the diagnostics sink, which is append-only.
\<close>

definition reportError :: "BoogieContext \<Rightarrow> ASTNode option \<Rightarrow> string \<Rightarrow> BoogieContext" where
  "reportError context associatedNode message =
     context\<lparr>errors := errors context @ [(associatedNode, message)]\<rparr>"

text \<open>
  Modelled from the spec: \<open>BoogieContext::intLit\<close> (not among the sources) materialises
  a literal of the given width: a bit-vector literal in the bit-vector encoding, an
  integer literal otherwise.
\<close>

definition intLit :: "BoogieContext \<Rightarrow> int \<Rightarrow> 32 word \<Rightarrow> Expr" where
  "intLit context lit bits = (if encoding context = Encoding_BV then BvLit lit bits else IntLit lit)"

text \<open>\<open>dynamic_pointer_cast<IntLit const>\<close> and \<open>dynamic_pointer_cast<BvLit const>\<close>.\<close>

fun asIntLit :: "Expr \<Rightarrow> int option" where
  "asIntLit (IntLit v) = Some v"
| "asIntLit _ = None"

fun asBvLit :: "Expr \<Rightarrow> int option" where
  "asBvLit (BvLit v w) = Some v"
| "asBvLit _ = None"

text \<open>
  \<open>%\<close> on the big integers of the source truncates towards zero, as on C++ integers:
  the remainder has the sign of the dividend.
\<close>

definition bigint_rem :: "int \<Rightarrow> int \<Rightarrow> int" where
  "bigint_rem a b = sgn a * (\<bar>a\<bar> mod \<bar>b\<bar>)"

definition ERR_EXPR :: string where
  "ERR_EXPR = ''__ERROR''"

section \<open>The arithmetic operator encoder\<close>

record ExprWithCC =
  expr :: Expr
  cc :: Expr

definition unsupported :: "BoogieContext \<Rightarrow> ASTNode option \<Rightarrow> string \<Rightarrow> ExprWithCC \<times> BoogieContext" where
  \<comment> \<open>\<open>context.reportError(associatedNode, msg); result = Expr::id(ERR_EXPR);\<close>\<close>
  "unsupported context associatedNode message =
     (\<lparr>expr = Id ERR_EXPR, cc = Nullptr\<rparr>, reportError context associatedNode message)"

definition plain :: "BoogieContext \<Rightarrow> Expr \<Rightarrow> ExprWithCC \<times> BoogieContext" where
  \<comment> \<open>a result without correctness condition: \<open>ecc\<close> stays \<open>nullptr\<close>\<close>
  "plain context result = (\<lparr>expr = result, cc = Nullptr\<rparr>, context)"

text \<open>The branch \<open>case BoogieContext::Encoding::INT\<close> of \<open>encodeArithBinaryOp\<close>.\<close>

definition encodeArithBinaryOp_INT ::
  "BoogieContext \<Rightarrow> ASTNode option \<Rightarrow> Token \<Rightarrow> Expr \<Rightarrow> Expr \<Rightarrow> ExprWithCC \<times> BoogieContext" where
  "encodeArithBinaryOp_INT context associatedNode op lhs rhs =
     (case op of
        Add \<Rightarrow> plain context (Plus lhs rhs)
      | AssignAdd \<Rightarrow> plain context (Plus lhs rhs)
      | Sub \<Rightarrow> plain context (Minus lhs rhs)
      | AssignSub \<Rightarrow> plain context (Minus lhs rhs)
      | Mul \<Rightarrow> plain context (Times lhs rhs)
      | AssignMul \<Rightarrow> plain context (Times lhs rhs)
      | Div \<Rightarrow> plain context (IntDiv lhs rhs)
      | AssignDiv \<Rightarrow> plain context (IntDiv lhs rhs)
      | Mod_tok \<Rightarrow> plain context (Mod lhs rhs)
      | AssignMod \<Rightarrow> plain context (Mod lhs rhs)
      | LessThan \<Rightarrow> plain context (Lt lhs rhs)
      | GreaterThan \<Rightarrow> plain context (Gt lhs rhs)
      | LessThanOrEqual \<Rightarrow> plain context (Lte lhs rhs)
      | GreaterThanOrEqual \<Rightarrow> plain context (Gte lhs rhs)
      | Exp \<Rightarrow>
          (case (asIntLit lhs, asIntLit rhs) of
             (Some lhsLit, Some rhsLit) \<Rightarrow>
               plain context (IntLit (lhsLit ^ convert_to_unsigned context rhsLit))
           | _ \<Rightarrow> unsupported context associatedNode
                    ''Exponentiation is not supported in 'int' encoding'')
      | _ \<Rightarrow> unsupported context associatedNode
               (''Unsupported binary operator in 'int' encoding '' @ TokenTraits_toString op))"

text \<open>The branch \<open>case BoogieContext::Encoding::BV\<close>.\<close>

definition encodeArithBinaryOp_BV ::
  "BoogieContext \<Rightarrow> ASTNode option \<Rightarrow> Token \<Rightarrow> Expr \<Rightarrow> Expr \<Rightarrow> 32 word \<Rightarrow> bool
     \<Rightarrow> ExprWithCC \<times> BoogieContext" where
  "encodeArithBinaryOp_BV context associatedNode op lhs rhs bits isSigned =
     (case op of
        Add \<Rightarrow> plain context (BvBin BvAdd bits lhs rhs)
      | AssignAdd \<Rightarrow> plain context (BvBin BvAdd bits lhs rhs)
      | Sub \<Rightarrow> plain context (BvBin BvSub bits lhs rhs)
      | AssignSub \<Rightarrow> plain context (BvBin BvSub bits lhs rhs)
      | Mul \<Rightarrow> plain context (BvBin BvMul bits lhs rhs)
      | AssignMul \<Rightarrow> plain context (BvBin BvMul bits lhs rhs)
      | Div \<Rightarrow> plain context (BvBin (if isSigned then BvSDiv else BvUDiv) bits lhs rhs)
      | AssignDiv \<Rightarrow> plain context (BvBin (if isSigned then BvSDiv else BvUDiv) bits lhs rhs)
      | BitAnd \<Rightarrow> plain context (BvBin BvAnd bits lhs rhs)
      | AssignBitAnd \<Rightarrow> plain context (BvBin BvAnd bits lhs rhs)
      | BitOr \<Rightarrow> plain context (BvBin BvOr bits lhs rhs)
      | AssignBitOr \<Rightarrow> plain context (BvBin BvOr bits lhs rhs)
      | BitXor \<Rightarrow> plain context (BvBin BvXor bits lhs rhs)
      | AssignBitXor \<Rightarrow> plain context (BvBin BvXor bits lhs rhs)
      | SAR \<Rightarrow> plain context (BvBin (if isSigned then BvAShr else BvLShr) bits lhs rhs)
      | AssignSar \<Rightarrow> plain context (BvBin (if isSigned then BvAShr else BvLShr) bits lhs rhs)
      | SHL \<Rightarrow> plain context (BvBin BvShl bits lhs rhs)
      | AssignShl \<Rightarrow> plain context (BvBin BvShl bits lhs rhs)
      | LessThan \<Rightarrow> plain context (BvBin (if isSigned then BvSlt else BvUlt) bits lhs rhs)
      | GreaterThan \<Rightarrow> plain context (BvBin (if isSigned then BvSgt else BvUgt) bits lhs rhs)
      | LessThanOrEqual \<Rightarrow> plain context (BvBin (if isSigned then BvSle else BvUle) bits lhs rhs)
      | GreaterThanOrEqual \<Rightarrow> plain context (BvBin (if isSigned then BvSge else BvUge) bits lhs rhs)
      | Exp \<Rightarrow>
          (case (asBvLit lhs, asBvLit rhs) of
             (Some lhsLit, Some rhsLit) \<Rightarrow>
               (let power = lhsLit ^ convert_to_unsigned context rhsLit
                in plain context (intLit context (bigint_rem power (2 ^ unat bits)) bits))
           | _ \<Rightarrow> unsupported context associatedNode
                    ''Exponentiation is not supported in 'bv' encoding'')
      | _ \<Rightarrow> unsupported context associatedNode
               (''Unsupported binary operator in 'bv' encoding '' @ TokenTraits_toString op))"

text \<open>
  The branch \<open>case BoogieContext::Encoding::MOD\<close>. \<open>wrapSigned e\<close> is the conditional
  that the source writes out three times (for the sum, the difference and the
  quotient).
\<close>

definition modulo :: "32 word \<Rightarrow> Expr" where
  "modulo bits = IntLit (2 ^ unat bits)"

definition largestSigned :: "32 word \<Rightarrow> Expr" where
  "largestSigned bits = IntLit (2 ^ unat (bits - 1) - 1)"

definition smallestSigned :: "32 word \<Rightarrow> Expr" where
  "smallestSigned bits = IntLit (- (2 ^ unat (bits - 1)))"

definition wrapSigned :: "32 word \<Rightarrow> Expr \<Rightarrow> Expr" where
  "wrapSigned bits e =
     Cond (Gt e (largestSigned bits))
          (Minus e (modulo bits))
          (Cond (Lt e (smallestSigned bits)) (Plus e (modulo bits)) e)"

definition encodeArithBinaryOp_MOD ::
  "BoogieContext \<Rightarrow> ASTNode option \<Rightarrow> Token \<Rightarrow> Expr \<Rightarrow> Expr \<Rightarrow> 32 word \<Rightarrow> bool
     \<Rightarrow> ExprWithCC \<times> BoogieContext" where
  "encodeArithBinaryOp_MOD context associatedNode op lhs rhs bits isSigned =
     (let
        add = (let sum = Plus lhs rhs;
                   result = (if isSigned then wrapSigned bits sum
                             else Cond (Gte sum (modulo bits)) (Minus sum (modulo bits)) sum)
               in (\<lparr>expr = result, cc = Eq sum result\<rparr>, context));
        sub = (let diff = Minus lhs rhs;
                   result = (if isSigned then wrapSigned bits diff
                             else Cond (Gte lhs rhs) diff (Plus diff (modulo bits)))
               in (\<lparr>expr = result, cc = Eq diff result\<rparr>, context));
        mul = (let prod = Times lhs rhs;
                   result =
                     (if isSigned then
                        (let lhs1 = Cond (Gte lhs (IntLit 0)) lhs (Plus (modulo bits) lhs);
                             rhs1 = Cond (Gte rhs (IntLit 0)) rhs (Plus (modulo bits) rhs);
                             prod1 = Mod (Times lhs1 rhs1) (modulo bits)
                         in Cond (Gt prod1 (largestSigned bits)) (Minus prod1 (modulo bits)) prod1)
                      else Cond (Gte prod (modulo bits)) (Mod prod (modulo bits)) prod)
               in (\<lparr>expr = result, cc = Eq prod result\<rparr>, context));
        dv = (let quot = IntDiv lhs rhs;
                  result = (if isSigned then wrapSigned bits quot else quot)
              in (\<lparr>expr = result, cc = Eq quot result\<rparr>, context))
      in case op of
        Add \<Rightarrow> add
      | AssignAdd \<Rightarrow> add
      | Sub \<Rightarrow> sub
      | AssignSub \<Rightarrow> sub
      | Mul \<Rightarrow> mul
      | AssignMul \<Rightarrow> mul
      | Div \<Rightarrow> dv
      | AssignDiv \<Rightarrow> dv
      | LessThan \<Rightarrow> plain context (Lt lhs rhs)
      | GreaterThan \<Rightarrow> plain context (Gt lhs rhs)
      | LessThanOrEqual \<Rightarrow> plain context (Lte lhs rhs)
      | GreaterThanOrEqual \<Rightarrow> plain context (Gte lhs rhs)
      | Exp \<Rightarrow>
          (case (asIntLit lhs, asIntLit rhs) of
             (Some lhsLit, Some rhsLit) \<Rightarrow>
               (let power = lhsLit ^ convert_to_unsigned context rhsLit;
                    result = intLit context
                               (bigint_rem power (2 ^ unat (if isSigned then bits - 1 else bits)))
                               bits
                in (\<lparr>expr = result, cc = Eq (intLit context power bits) result\<rparr>, context))
           | _ \<Rightarrow> unsupported context associatedNode
                    ''Exponentiation is not supported in 'mod' encoding'')
      | _ \<Rightarrow> unsupported context associatedNode
               (''Unsupported binary operator in 'mod' encoding '' @ TokenTraits_toString op))"

definition encodeArithBinaryOp ::
  "BoogieContext \<Rightarrow> ASTNode option \<Rightarrow> Token \<Rightarrow> Expr \<Rightarrow> Expr \<Rightarrow> 32 word \<Rightarrow> bool
     \<Rightarrow> ExprWithCC \<times> BoogieContext" where
  "encodeArithBinaryOp context associatedNode op lhs rhs bits isSigned =
     (case encoding context of
        Encoding_INT \<Rightarrow> encodeArithBinaryOp_INT context associatedNode op lhs rhs
      | Encoding_BV \<Rightarrow> encodeArithBinaryOp_BV context associatedNode op lhs rhs bits isSigned
      | Encoding_MOD \<Rightarrow> encodeArithBinaryOp_MOD context associatedNode op lhs rhs bits isSigned)"

text \<open>\<open>encodeArithUnaryOp\<close>, with the same three branches.\<close>

definition encodeArithUnaryOp ::
  "BoogieContext \<Rightarrow> ASTNode option \<Rightarrow> Token \<Rightarrow> Expr \<Rightarrow> 32 word \<Rightarrow> bool
     \<Rightarrow> ExprWithCC \<times> BoogieContext" where
  "encodeArithUnaryOp context associatedNode op subExpr bits isSigned =
     (case encoding context of
        Encoding_INT \<Rightarrow>
          (case op of
             Sub \<Rightarrow> plain context (Neg subExpr)
           | _ \<Rightarrow> unsupported context associatedNode
                    (''Unsupported unary operator in 'int' encoding '' @ TokenTraits_toString op))
      | Encoding_BV \<Rightarrow>
          (case op of
             Sub \<Rightarrow> plain context (BvUn BvNeg bits subExpr)
           | BitNot \<Rightarrow> plain context (BvUn BvNot bits subExpr)
           | _ \<Rightarrow> unsupported context associatedNode
                    (''Unsupported unary operator in 'bv' encoding '' @ TokenTraits_toString op))
      | Encoding_MOD \<Rightarrow>
          (case op of
             Sub \<Rightarrow>
               (let sub = Neg subExpr;
                    result =
                      (if isSigned then
                         Cond (Eq subExpr (smallestSigned bits)) (smallestSigned bits) sub
                       else
                         Cond (Eq subExpr (IntLit 0)) (IntLit 0) (Minus (modulo bits) subExpr))
                in (\<lparr>expr = result, cc = Eq sub result\<rparr>, context))
           | _ \<Rightarrow> unsupported context associatedNode
                    (''Unsupported unary operator in 'mod' encoding '' @ TokenTraits_toString op)))"

section \<open>Types: classifier, width and signedness\<close>

text \<open>
  The source types the encoder distinguishes (\<open>Type::Category\<close>): integers with their
  number of bits and signedness, fixed-size byte arrays with their number of bytes,
  enums with their members, tuples whose components may be absent (a null
  \<open>TypePointer\<close>), and every other category.
\<close>

datatype Type =
    IntegerType "32 word" bool
  | FixedBytesType nat
  | EnumType "string list"
  | TupleType "Type option list"
  | OtherType

text \<open>
  \<open>solAssert\<close> throws an internal compiler error, which ends the translation. Reading a
  vector out of range and calling a method through a null pointer are undefined in C++;
  they are the error \<open>UndefinedBehaviour\<close>.
\<close>

datatype error = InternalCompilerError string | UndefinedBehaviour

fun isBitPreciseType :: "Type \<Rightarrow> bool" where
  "isBitPreciseType (IntegerType n sg) = True"
| "isBitPreciseType (FixedBytesType n) = True"
| "isBitPreciseType (EnumType ms) = True"
| "isBitPreciseType (TupleType components) =
     list_all (\<lambda>e. case e of None \<Rightarrow> True | Some t \<Rightarrow> isBitPreciseType t) components"
| "isBitPreciseType OtherType = False"

fun getBits :: "Type \<Rightarrow> error + 32 word" where
  "getBits (IntegerType n sg) = Inr n"
| "getBits (EnumType ms) = Inr 256"
| "getBits _ = Inl (InternalCompilerError ''Trying to get bits for non-bitprecise type'')"

fun isSigned :: "Type \<Rightarrow> error + bool" where
  "isSigned (IntegerType n sg) = Inr sg"
| "isSigned (EnumType ms) = Inr False"
| "isSigned _ = Inl (InternalCompilerError ''Trying to get sign for non-bitprecise type'')"

section \<open>Range conditions\<close>

fun isEnum :: "Type \<Rightarrow> bool" where
  "isEnum (EnumType ms) = True"
| "isEnum _ = False"

fun enumMembers :: "Type \<Rightarrow> string list" where
  "enumMembers (EnumType ms) = ms"
| "enumMembers _ = []"

definition getTCCforExpr :: "Expr \<Rightarrow> Type \<Rightarrow> error + Expr" where
  "getTCCforExpr e tp =
     (if isEnum tp then
        Inr (And (Lte (IntLit 0) e) (Lt e (IntLit (int (length (enumMembers tp))))))
      else if isBitPreciseType tp then
        (case getBits tp of
           Inl err \<Rightarrow> Inl err
         | Inr bits \<Rightarrow>
             (case isSigned tp of
                Inl err \<Rightarrow> Inl err
              | Inr True \<Rightarrow>
                  Inr (And (Lte (smallestSigned bits) e) (Lte e (largestSigned bits)))
              | Inr False \<Rightarrow>
                  Inr (And (Lte (IntLit 0) e) (Lte e (IntLit (2 ^ unat bits - 1))))))
      else Inr (BoolLit True))"

section \<open>Implicit conversion between bit-vector types\<close>

fun tupleComponents :: "Type \<Rightarrow> Type option list option" where
  \<comment> \<open>\<open>dynamic_cast<TupleType const*>\<close>, then \<open>components()\<close>\<close>
  "tupleComponents (TupleType cs) = Some cs"
| "tupleComponents _ = None"

fun tupleElements :: "Expr \<Rightarrow> Expr list option" where
  \<comment> \<open>\<open>dynamic_pointer_cast<TupleExpr const>\<close>, then \<open>elements()\<close>\<close>
  "tupleElements (Tuple es) = Some es"
| "tupleElements _ = None"

definition convertNonLiteral :: "Expr \<Rightarrow> Type \<Rightarrow> Type \<Rightarrow> 32 word \<Rightarrow> error + Expr" where
  \<comment> \<open>the branch \<open>else if (isBitPreciseType(exprType))\<close>\<close>
  "convertNonLiteral e exprType targetType targetBits =
     (case getBits exprType of
        Inl err \<Rightarrow> Inl err
      | Inr exprBits \<Rightarrow>
          (case isSigned targetType of
             Inl err \<Rightarrow> Inl err
           | Inr targetSigned \<Rightarrow>
               (case isSigned exprType of
                  Inl err \<Rightarrow> Inl err
                | Inr exprSigned \<Rightarrow>
                    (if targetBits = exprBits \<and> targetSigned = exprSigned then Inr e
                     else if \<not> (targetBits \<ge> exprBits) then
                       Inl (InternalCompilerError ''Implicit conversion to smaller type'')
                     else if \<not> exprSigned then Inr (BvZeroExt e exprBits targetBits)
                     else if targetSigned then Inr (BvSignExt e exprBits targetBits)
                     else Inl (InternalCompilerError
                                 ''Implicit conversion from signed to unsigned'')))))"

definition convertBitPrecise :: "Expr \<Rightarrow> Type \<Rightarrow> Type \<Rightarrow> error + Expr" where
  \<comment> \<open>the part of \<open>checkImplicitBvConversion\<close> after the tuple case\<close>
  "convertBitPrecise e exprType targetType =
     (if isBitPreciseType targetType then
        (case getBits targetType of
           Inl err \<Rightarrow> Inl err
         | Inr targetBits \<Rightarrow>
             (case asIntLit e of
                Some v \<Rightarrow>
                  (if v < 0 then Inr (BvUn BvNeg targetBits (BvLit (- v) targetBits))
                   else Inr (BvLit v targetBits))
              | None \<Rightarrow>
                  (if isBitPreciseType exprType
                   then convertNonLiteral e exprType targetType targetBits
                   else Inr e)))
      else Inr e)"

text \<open>
  \<open>checkImplicitBvConversion\<close>. The loop over the components of a target tuple reads
  element \<open>i\<close> of the tuple expression and of the expression's tuple type: the lists are
  walked together, and a missing element or a failed cast is undefined behaviour. The
  context only serves to build the bit-vector primitives.
\<close>

fun checkImplicitBvConversion ::
    "Expr \<Rightarrow> Type option \<Rightarrow> Type option \<Rightarrow> BoogieContext \<Rightarrow> error + Expr"
  and convertElements ::
    "Expr list option \<Rightarrow> Type option list option \<Rightarrow> Type option list \<Rightarrow> BoogieContext
       \<Rightarrow> error + Expr list" where
  "checkImplicitBvConversion e None targetType context = Inl (InternalCompilerError [])"
| "checkImplicitBvConversion e (Some exprType) None context = Inl (InternalCompilerError [])"
| "checkImplicitBvConversion e (Some exprType) (Some (TupleType targetComponents)) context =
     (case convertElements (tupleElements e) (tupleComponents exprType) targetComponents context of
        Inl err \<Rightarrow> Inl err
      | Inr elements \<Rightarrow> Inr (Tuple elements))"
| "checkImplicitBvConversion e (Some exprType) (Some (IntegerType n sg)) context =
     convertBitPrecise e exprType (IntegerType n sg)"
| "checkImplicitBvConversion e (Some exprType) (Some (FixedBytesType n)) context =
     convertBitPrecise e exprType (FixedBytesType n)"
| "checkImplicitBvConversion e (Some exprType) (Some (EnumType ms)) context =
     convertBitPrecise e exprType (EnumType ms)"
| "checkImplicitBvConversion e (Some exprType) (Some OtherType) context =
     convertBitPrecise e exprType OtherType"
| "convertElements elements exprComponents [] context = Inr []"
| "convertElements elements exprComponents (targetType_i # rest) context =
     (case elements of
        None \<Rightarrow> Inl UndefinedBehaviour
      | Some [] \<Rightarrow> Inl UndefinedBehaviour
      | Some (expr_i # elements') \<Rightarrow>
          (case exprComponents of
             None \<Rightarrow> Inl UndefinedBehaviour
           | Some [] \<Rightarrow> Inl UndefinedBehaviour
           | Some (exprType_i # exprComponents') \<Rightarrow>
               (case (case targetType_i of
                        None \<Rightarrow> Inr Nullptr
                      | Some t \<Rightarrow> checkImplicitBvConversion expr_i exprType_i (Some t) context) of
                  Inl err \<Rightarrow> Inl err
                | Inr result_i \<Rightarrow>
                    (case convertElements (Some elements') (Some exprComponents') rest context of
                       Inl err \<Rightarrow> Inl err
                     | Inr results \<Rightarrow> Inr (result_i # results)))))"

section \<open>Rewriting a select chain into an update\<close>

text \<open>
  Modelled from the spec: \<open>SelExpr::toUpdate\<close> (the Boogie AST classes are not among the
  sources) turns \<open>Select(base, index)\<close> and a value into \<open>Update(base, index, value)\<close>.
\<close>

fun isSelExpr :: "Expr \<Rightarrow> bool" where
  "isSelExpr (ArrSel base idx) = True"
| "isSelExpr _ = False"

fun toUpdate :: "Expr \<Rightarrow> Expr \<Rightarrow> Expr" where
  "toUpdate (ArrSel base idx) v = ArrUpd base idx v"
| "toUpdate e v = Nullptr"

fun getBase :: "Expr \<Rightarrow> Expr" where
  "getBase (ArrSel base idx) = base"
| "getBase e = Nullptr"

function selectToUpdate :: "Expr \<Rightarrow> Expr \<Rightarrow> error + Expr" where
  "selectToUpdate sel v =
     (if isSelExpr sel then
        (if isSelExpr (getBase sel) then selectToUpdate (getBase sel) (toUpdate sel v)
         else Inr (toUpdate sel v))
      else Inl (InternalCompilerError ''Expected datatype/array select''))"
  by pat_completeness auto
termination
  by (relation "measure (\<lambda>(sel, v). size sel)") (auto elim: isSelExpr.elims)

section \<open>The built-in procedures\<close>












text \<open>
  A context for concrete evaluations, with the identifiers and type names that the
  translator uses for \<open>this\<close>, \<open>msg.sender\<close>, \<open>msg.value\<close> and the balances.
\<close>

definition exampleContext :: "Encoding \<Rightarrow> bool \<Rightarrow> BoogieContext" where
  "exampleContext enc ovf =
     \<lparr>encoding = enc, overflow = ovf,
      boogieThis = ''__this'', boogieThisType = ''address_t'',
      boogieMsgSender = ''__msg_sender'', boogieMsgSenderType = ''address_t'',
      boogieMsgValue = ''__msg_value'', boogieMsgValueType = ''int'',
      boogieBalance = ''__balance'',
      intType = (\<lambda>bits. ''int''), boolType = ''bool'',
      callReturnTypes = Some [''bool'', ''int_arr_ptr''],
      convert_to_unsigned = nat, errors = []\<rparr>"

section \<open>Meaning of the generated Boogie code\<close>

text \<open>
  The claims about the encoder speak of what the generated expressions and procedure
  bodies compute, so the integer fragment of Boogie gets its standard meaning here.
  Values are mathematical integers, booleans and maps indexed by integers (addresses and
  array indices are integers in this encoding). An expression that is ill-typed, reads
  an undeclared variable, divides by zero (Boogie leaves the result unspecified) or
  dereferences the null reference has no value. Boogie's \<open>div\<close> and \<open>mod\<close> are the
  Euclidean ones of SMT-LIB. A bit vector of width \<open>w\<close> is represented by its unsigned
  value, an integer in \<open>[0, 2^w)\<close>; the bit-vector primitives that the context declares
  have the meaning of the SMT-LIB functions they are bound to (\<open>bvadd\<close>, \<open>bvsub\<close>, ...,
  \<open>zero_extend\<close>, \<open>sign_extend\<close>), and have no value on an operand outside that range.
\<close>

datatype val = IntV int | BoolV bool | MapV "int \<Rightarrow> val"

type_synonym state = "string \<Rightarrow> val option"

fun arith :: "(int \<Rightarrow> int \<Rightarrow> val option) \<Rightarrow> val option \<Rightarrow> val option \<Rightarrow> val option" where
  "arith f (Some (IntV a)) (Some (IntV b)) = f a b"
| "arith f _ _ = None"

fun equal_val :: "val option \<Rightarrow> val option \<Rightarrow> val option" where
  "equal_val (Some (IntV a)) (Some (IntV b)) = Some (BoolV (a = b))"
| "equal_val (Some (BoolV a)) (Some (BoolV b)) = Some (BoolV (a = b))"
| "equal_val _ _ = None"

fun and_val :: "val option \<Rightarrow> val option \<Rightarrow> val option" where
  "and_val (Some (BoolV a)) (Some (BoolV b)) = Some (BoolV (a \<and> b))"
| "and_val _ _ = None"

fun select_val :: "val option \<Rightarrow> val option \<Rightarrow> val option" where
  "select_val (Some (MapV f)) (Some (IntV k)) = Some (f k)"
| "select_val _ _ = None"

fun update_val :: "val option \<Rightarrow> val option \<Rightarrow> val option \<Rightarrow> val option" where
  "update_val (Some (MapV f)) (Some (IntV k)) (Some v) = Some (MapV (f(k := v)))"
| "update_val _ _ _ = None"

definition euclid_div :: "int \<Rightarrow> int \<Rightarrow> val option" where
  "euclid_div a b =
     (if b = 0 then None else Some (IntV (if 0 < b then a div b else - (a div (- b)))))"

definition euclid_mod :: "int \<Rightarrow> int \<Rightarrow> val option" where
  "euclid_mod a b = (if b = 0 then None else Some (IntV (a mod \<bar>b\<bar>)))"

definition bvRange :: "32 word \<Rightarrow> int \<Rightarrow> bool" where
  \<comment> \<open>the unsigned values of the bit vectors of a width\<close>
  "bvRange bits a \<longleftrightarrow> 0 \<le> a \<and> a < 2 ^ unat bits"

definition bvWrap :: "32 word \<Rightarrow> int \<Rightarrow> int" where
  "bvWrap bits a = a mod 2 ^ unat bits"

definition bvSigned :: "32 word \<Rightarrow> int \<Rightarrow> int" where
  \<comment> \<open>the two's complement reading: the top bit is set iff \<open>2 * a \<ge> 2^w\<close>\<close>
  "bvSigned bits a = (if 2 ^ unat bits \<le> 2 * a then a - 2 ^ unat bits else a)"

definition bvUDivInt :: "32 word \<Rightarrow> int \<Rightarrow> int \<Rightarrow> int" where
  \<comment> \<open>\<open>bvudiv\<close>: division by zero gives the vector of ones\<close>
  "bvUDivInt bits a b = (if b = 0 then 2 ^ unat bits - 1 else a div b)"

definition bvSDivInt :: "32 word \<Rightarrow> int \<Rightarrow> int \<Rightarrow> int" where
  \<comment> \<open>\<open>bvsdiv\<close>, defined in SMT-LIB by the signs of the operands through \<open>bvudiv\<close> and \<open>bvneg\<close>\<close>
  "bvSDivInt bits a b =
     (let negA = bvSigned bits a < 0; negB = bvSigned bits b < 0
      in if \<not> negA \<and> \<not> negB then bvUDivInt bits a b
         else if negA \<and> \<not> negB then bvWrap bits (- bvUDivInt bits (bvWrap bits (- a)) b)
         else if \<not> negA \<and> negB then bvWrap bits (- bvUDivInt bits a (bvWrap bits (- b)))
         else bvUDivInt bits (bvWrap bits (- a)) (bvWrap bits (- b)))"

fun bvBinary :: "BvOp \<Rightarrow> 32 word \<Rightarrow> int \<Rightarrow> int \<Rightarrow> val" where
  "bvBinary BvAdd bits a b = IntV (bvWrap bits (a + b))"
| "bvBinary BvSub bits a b = IntV (bvWrap bits (a - b))"
| "bvBinary BvMul bits a b = IntV (bvWrap bits (a * b))"
| "bvBinary BvSDiv bits a b = IntV (bvSDivInt bits a b)"
| "bvBinary BvUDiv bits a b = IntV (bvUDivInt bits a b)"
| "bvBinary BvAnd bits a b = IntV (a AND b)"
| "bvBinary BvOr bits a b = IntV (a OR b)"
| "bvBinary BvXor bits a b = IntV (a XOR b)"
| "bvBinary BvAShr bits a b = IntV (bvWrap bits (bvSigned bits a div 2 ^ nat b))"
| "bvBinary BvLShr bits a b = IntV (a div 2 ^ nat b)"
| "bvBinary BvShl bits a b = IntV (bvWrap bits (a * 2 ^ nat b))"
| "bvBinary BvSlt bits a b = BoolV (bvSigned bits a < bvSigned bits b)"
| "bvBinary BvUlt bits a b = BoolV (a < b)"
| "bvBinary BvSgt bits a b = BoolV (bvSigned bits a > bvSigned bits b)"
| "bvBinary BvUgt bits a b = BoolV (a > b)"
| "bvBinary BvSle bits a b = BoolV (bvSigned bits a \<le> bvSigned bits b)"
| "bvBinary BvUle bits a b = BoolV (a \<le> b)"
| "bvBinary BvSge bits a b = BoolV (bvSigned bits a \<ge> bvSigned bits b)"
| "bvBinary BvUge bits a b = BoolV (a \<ge> b)"

fun bvUnary :: "BvUnOp \<Rightarrow> 32 word \<Rightarrow> int \<Rightarrow> val" where
  "bvUnary BvNeg bits a = IntV (bvWrap bits (- a))"
| "bvUnary BvNot bits a = IntV (2 ^ unat bits - 1 - a)"

fun bv_binary_val :: "BvOp \<Rightarrow> 32 word \<Rightarrow> val option \<Rightarrow> val option \<Rightarrow> val option" where
  "bv_binary_val f bits (Some (IntV a)) (Some (IntV b)) =
     (if bvRange bits a \<and> bvRange bits b then Some (bvBinary f bits a b) else None)"
| "bv_binary_val f bits _ _ = None"

fun bv_unary_val :: "BvUnOp \<Rightarrow> 32 word \<Rightarrow> val option \<Rightarrow> val option" where
  "bv_unary_val f bits (Some (IntV a)) =
     (if bvRange bits a then Some (bvUnary f bits a) else None)"
| "bv_unary_val f bits _ = None"

fun bv_extend_val :: "bool \<Rightarrow> 32 word \<Rightarrow> 32 word \<Rightarrow> val option \<Rightarrow> val option" where
  \<comment> \<open>\<open>zero_extend\<close> and (with the flag) \<open>sign_extend\<close> from a width to a width not smaller\<close>
  "bv_extend_val sg fromBits toBits (Some (IntV a)) =
     (if bvRange fromBits a \<and> fromBits \<le> toBits
      then Some (IntV (if sg then bvWrap toBits (bvSigned fromBits a) else a))
      else None)"
| "bv_extend_val sg fromBits toBits _ = None"

fun eval :: "state \<Rightarrow> Expr \<Rightarrow> val option" where
  "eval s Nullptr = None"
| "eval s (IntLit n) = Some (IntV n)"
| "eval s (BoolLit b) = Some (BoolV b)"
| "eval s (BvLit v w) = (if bvRange w v then Some (IntV v) else None)"
| "eval s (Id x) = s x"
| "eval s (ArrSel b i) = select_val (eval s b) (eval s i)"
| "eval s (ArrUpd b i v) = update_val (eval s b) (eval s i) (eval s v)"
| "eval s (Plus l r) = arith (\<lambda>a b. Some (IntV (a + b))) (eval s l) (eval s r)"
| "eval s (Minus l r) = arith (\<lambda>a b. Some (IntV (a - b))) (eval s l) (eval s r)"
| "eval s (Times l r) = arith (\<lambda>a b. Some (IntV (a * b))) (eval s l) (eval s r)"
| "eval s (IntDiv l r) = arith euclid_div (eval s l) (eval s r)"
| "eval s (Mod l r) = arith euclid_mod (eval s l) (eval s r)"
| "eval s (Lt l r) = arith (\<lambda>a b. Some (BoolV (a < b))) (eval s l) (eval s r)"
| "eval s (Gt l r) = arith (\<lambda>a b. Some (BoolV (a > b))) (eval s l) (eval s r)"
| "eval s (Lte l r) = arith (\<lambda>a b. Some (BoolV (a \<le> b))) (eval s l) (eval s r)"
| "eval s (Gte l r) = arith (\<lambda>a b. Some (BoolV (a \<ge> b))) (eval s l) (eval s r)"
| "eval s (Eq l r) = equal_val (eval s l) (eval s r)"
| "eval s (And l r) = and_val (eval s l) (eval s r)"
| "eval s (Neg e) = (case eval s e of Some (IntV a) \<Rightarrow> Some (IntV (- a)) | _ \<Rightarrow> None)"
| "eval s (Cond c t e) =
     (case eval s c of
        Some (BoolV b) \<Rightarrow> (if b then eval s t else eval s e)
      | _ \<Rightarrow> None)"
| "eval s (Tuple es) = None"
| "eval s (BvBin f w l r) = bv_binary_val f w (eval s l) (eval s r)"
| "eval s (BvUn f w e) = bv_unary_val f w (eval s e)"
| "eval s (BvZeroExt e w w') = bv_extend_val False w w' (eval s e)"
| "eval s (BvSignExt e w w') = bv_extend_val True w w' (eval s e)"

text \<open>
  A statement list maps a state to the list of states it can end in. A blocked
  \<open>assume\<close> (or a statement without meaning) has no final state; \<open>if (*)\<close> is the
  non-deterministic choice and has the final states of both branches.
\<close>

fun exec :: "Stmt \<Rightarrow> state \<Rightarrow> state list"
  and exec_block :: "Stmt list \<Rightarrow> state \<Rightarrow> state list" where
  "exec (Assume e) s = (case eval s e of Some (BoolV True) \<Rightarrow> [s] | _ \<Rightarrow> [])"
| "exec (Assign lhs e) s =
     (case lhs of
        Id x \<Rightarrow> (case eval s e of Some v \<Rightarrow> [s(x \<mapsto> v)] | None \<Rightarrow> [])
      | _ \<Rightarrow> [])"
| "exec (IfElse c thenBlock elseBlock) s =
     (if c = Id ''*'' then exec_block thenBlock s @ exec_block elseBlock s
      else (case eval s c of
              Some (BoolV b) \<Rightarrow> (if b then exec_block thenBlock s else exec_block elseBlock s)
            | _ \<Rightarrow> []))"
| "exec (Comment c) s = [s]"
| "exec_block [] s = [s]"
| "exec_block (st # rest) s = concat (map (exec_block rest) (exec st s))"

definition emptyState :: state where
  \<comment> \<open>the state in which no variable is declared\<close>
  "emptyState = (\<lambda>x. None)"

section \<open>Running a synthesized procedure\<close>







text \<open>A state for concrete evaluations: \<open>m\<close> is a three-level map with \<open>m[i][j][k] = i + j + k\<close>.\<close>

definition nestedMapState :: state where
  "nestedMapState =
     (\<lambda>x. if x = ''m'' then Some (MapV (\<lambda>i. MapV (\<lambda>j. MapV (\<lambda>k. IntV (i + j + k)))))
          else None)"

section \<open>Modular arithmetic: wrapped result and correctness condition\<close>

lemma pow_bits_split:
  "bits \<noteq> 0 \<Longrightarrow> (2::int) ^ unat (bits :: 32 word) = 2 * 2 ^ (unat bits - 1)"
proof -
  assume "bits \<noteq> 0"
  then have "0 < unat bits" by (simp add: unat_gt_0)
  then obtain k where "unat bits = Suc k" by (cases "unat bits") auto
  then show ?thesis by simp
qed

lemma unat_pred: "bits \<noteq> 0 \<Longrightarrow> unat (bits - 1 :: 32 word) = unat bits - 1"
  by (simp add: unat_minus_one)

lemma congruent_in_window:
  fixes x y M :: int
  assumes "x mod M = y mod M" "\<bar>x - y\<bar> < M"
  shows "x = y"
proof -
  have "M dvd (x - y)" using assms(1) by (simp add: mod_eq_dvd_iff)
  then obtain k where k: "x - y = M * k" by (auto simp: dvd_def)
  have "k = 0"
  proof (rule ccontr)
    assume "k \<noteq> 0"
    then have "1 \<le> \<bar>k\<bar>" by simp
    moreover have "0 < M" using assms(2) by linarith
    ultimately have "M * 1 \<le> M * \<bar>k\<bar>" by (intro mult_left_mono) auto
    then have "M \<le> \<bar>M * k\<bar>" using \<open>0 < M\<close> by (simp add: abs_mult)
    with k assms(2) show False by simp
  qed
  with k show ?thesis by simp
qed

lemma signed_normalise:
  fixes a M :: int
  shows "(if 0 \<le> a then a else M + a) mod M = a mod M"
  by simp

lemma signed_mul_wrap:
  fixes a b H M :: int
  assumes H: "0 < H" and M: "M = 2 * H"
    and a: "- H \<le> a" "a \<le> H - 1" and b: "- H \<le> b" "b \<le> H - 1"
    and p_def: "p = ((if 0 \<le> a then a else M + a) * (if 0 \<le> b then b else M + b)) mod M"
    and r_def: "r = (if H - 1 < p then p - M else p)"
  shows "- H \<le> r \<and> r \<le> H - 1 \<and> r mod M = (a * b) mod M
    \<and> (r = a * b \<longleftrightarrow> - H \<le> a * b \<and> a * b \<le> H - 1)"
proof -
  have Mpos: "0 < M" using H M by simp
  have p: "p = (a * b) mod M"
  proof -
    have "p = (((if 0 \<le> a then a else M + a) mod M) * ((if 0 \<le> b then b else M + b) mod M)) mod M"
      unfolding p_def by (simp only: mod_mult_eq)
    also have "\<dots> = ((a mod M) * (b mod M)) mod M"
      by (simp only: signed_normalise)
    also have "\<dots> = (a * b) mod M" by (simp only: mod_mult_eq)
    finally show ?thesis .
  qed
  have prange: "0 \<le> p" "p < M" using Mpos by (simp_all add: p)
  have lo: "- H \<le> r" and hi: "r \<le> H - 1"
    using prange M by (auto simp: r_def)
  have "r mod M = p mod M" by (simp add: r_def)
  then have cong: "r mod M = (a * b) mod M" by (simp add: p)
  have "r = a * b \<longleftrightarrow> - H \<le> a * b \<and> a * b \<le> H - 1"
  proof
    assume "r = a * b" with lo hi show "- H \<le> a * b \<and> a * b \<le> H - 1" by simp
  next
    assume "- H \<le> a * b \<and> a * b \<le> H - 1"
    with lo hi M have "\<bar>r - a * b\<bar> < M" by linarith
    with cong show "r = a * b" by (rule congruent_in_window)
  qed
  with lo hi cong show ?thesis by simp
qed

lemma eval_wrapSigned:
  assumes "eval s e = Some (IntV x)"
  shows "eval s (wrapSigned bits e) =
    Some (IntV (if 2 ^ unat (bits - 1) - 1 < x then x - 2 ^ unat bits
                else if x < - (2 ^ unat (bits - 1)) then x + 2 ^ unat bits else x))"
  using assms by (simp add: wrapSigned_def largestSigned_def smallestSigned_def modulo_def)

lemma eval_MOD_add:
  assumes "encoding context = Encoding_MOD" "op = Add \<or> op = AssignAdd"
    and "eval s lhs = Some (IntV a)" "eval s rhs = Some (IntV b)"
  shows "eval s (expr (fst (encodeArithBinaryOp context node op lhs rhs bits sg))) =
     Some (IntV (if sg
        then (if 2 ^ unat (bits - 1) - 1 < a + b then a + b - 2 ^ unat bits
              else if a + b < - (2 ^ unat (bits - 1)) then a + b + 2 ^ unat bits else a + b)
        else (if 2 ^ unat bits \<le> a + b then a + b - 2 ^ unat bits else a + b)))"
  using assms
  by (auto simp: encodeArithBinaryOp_def encodeArithBinaryOp_MOD_def Let_def eval_wrapSigned modulo_def)

lemma eval_MOD_sub:
  assumes "encoding context = Encoding_MOD" "op = Sub \<or> op = AssignSub"
    and "eval s lhs = Some (IntV a)" "eval s rhs = Some (IntV b)"
  shows "eval s (expr (fst (encodeArithBinaryOp context node op lhs rhs bits sg))) =
     Some (IntV (if sg
        then (if 2 ^ unat (bits - 1) - 1 < a - b then a - b - 2 ^ unat bits
              else if a - b < - (2 ^ unat (bits - 1)) then a - b + 2 ^ unat bits else a - b)
        else (if b \<le> a then a - b else a - b + 2 ^ unat bits)))"
  using assms
  by (auto simp: encodeArithBinaryOp_def encodeArithBinaryOp_MOD_def Let_def eval_wrapSigned modulo_def)

lemma eval_MOD_mul:
  assumes "encoding context = Encoding_MOD" "op = Mul \<or> op = AssignMul"
    and "eval s lhs = Some (IntV a)" "eval s rhs = Some (IntV b)"
  shows "eval s (expr (fst (encodeArithBinaryOp context node op lhs rhs bits sg))) =
     Some (IntV (if sg
        then (let p = ((if 0 \<le> a then a else 2 ^ unat bits + a) *
                       (if 0 \<le> b then b else 2 ^ unat bits + b)) mod 2 ^ unat bits
              in if 2 ^ unat (bits - 1) - 1 < p then p - 2 ^ unat bits else p)
        else (if 2 ^ unat bits \<le> a * b then (a * b) mod 2 ^ unat bits else a * b)))"
  using assms
  by (auto simp: encodeArithBinaryOp_def encodeArithBinaryOp_MOD_def Let_def modulo_def
      largestSigned_def euclid_mod_def)

lemma eval_MOD_cc:
  assumes "encoding context = Encoding_MOD"
    and "op \<in> {Add, AssignAdd, Sub, AssignSub, Mul, AssignMul}"
    and "eval s lhs = Some (IntV a)" "eval s rhs = Some (IntV b)"
    and "eval s (expr (fst (encodeArithBinaryOp context node op lhs rhs bits sg))) = Some (IntV x)"
  shows "eval s (cc (fst (encodeArithBinaryOp context node op lhs rhs bits sg))) =
     Some (BoolV ((if op \<in> {Add, AssignAdd} then a + b else if op \<in> {Sub, AssignSub} then a - b else a * b) = x))"
  using assms
  by (auto simp: encodeArithBinaryOp_def encodeArithBinaryOp_MOD_def Let_def)

lemma signed_wrap:
  fixes e H M :: int
  assumes "0 < H" "M = 2 * H" "- M \<le> e" "e \<le> M - 1"
    and "r = (if H - 1 < e then e - M else if e < - H then e + M else e)"
  shows "- H \<le> r \<and> r \<le> H - 1 \<and> r mod M = e mod M
    \<and> (r = e \<longleftrightarrow> - H \<le> e \<and> e \<le> H - 1)
    \<and> (\<not> (- H \<le> e \<and> e \<le> H - 1) \<longrightarrow> r = e - M \<or> r = e + M)"
  using assms by auto

lemma mod_fixed_iff:
  fixes e M :: int
  assumes "0 < M"
  shows "e mod M = e \<longleftrightarrow> 0 \<le> e \<and> e \<le> M - 1"
proof
  assume "e mod M = e"
  moreover have "0 \<le> e mod M" "e mod M < M" using assms by simp_all
  ultimately show "0 \<le> e \<and> e \<le> M - 1" by simp
next
  assume "0 \<le> e \<and> e \<le> M - 1"
  then show "e mod M = e" by (simp add: mod_pos_pos_trivial)
qed

lemma unsigned_wrap:
  fixes e M :: int
  assumes "0 < M" "- M \<le> e" "e \<le> 2 * M - 1"
    and "r = (if M \<le> e then e - M else if e < 0 then e + M else e)"
  shows "0 \<le> r \<and> r \<le> M - 1 \<and> e mod M = r \<and> (r = e \<longleftrightarrow> 0 \<le> e \<and> e \<le> M - 1)"
proof -
  have rng: "0 \<le> r" "r < M" using assms by auto
  have "r mod M = e mod M" using assms(4) by (auto simp: minus_mod_self2)
  with rng have r: "r = e mod M" by (simp add: mod_pos_pos_trivial)
  show ?thesis using rng r mod_fixed_iff [OF assms(1), of e] by auto
qed

lemma unsigned_mul_wrap:
  fixes a b M :: int
  assumes "0 < M" "0 \<le> a" "0 \<le> b" "r = (if M \<le> a * b then (a * b) mod M else a * b)"
  shows "0 \<le> r \<and> r \<le> M - 1 \<and> (a * b) mod M = r \<and> (r = a * b \<longleftrightarrow> 0 \<le> a * b \<and> a * b \<le> M - 1)"
proof -
  have nn: "0 \<le> a * b" using assms by simp
  have r: "r = (a * b) mod M" using assms nn by (simp add: mod_pos_pos_trivial)
  have "0 \<le> r" "r < M" using assms(1) by (simp_all add: r)
  then show ?thesis using r mod_fixed_iff [OF assms(1), of "a * b"] by auto
qed

text \<open>
  Claim C1, as amended. In the modular encoding, for \<open>Add\<close>, \<open>Sub\<close> and \<open>Mul\<close> on a
  \<open>w\<close>-bit type (\<open>w \<ge> 1\<close>) and operands whose values lie in the representable range
  \<open>[lo, hi]\<close>, \<open>encodeArithBinaryOp\<close> returns a result expression and a correctness
  condition such that: the condition is true iff the exact unbounded result lies in
  \<open>[lo, hi]\<close>; the wrapped result lies in \<open>[lo, hi]\<close> and is congruent to the exact
  result modulo \<open>2^w\<close>; and when the condition is false the wrapped result is
  \<open>exact mod 2^w\<close> in the unsigned case, and \<open>exact - 2^w\<close> or \<open>exact + 2^w\<close> in the
  signed case for \<open>Add\<close> and \<open>Sub\<close>. (For a signed \<open>Mul\<close> the wrapped result can differ
  from the exact one by a larger multiple of \<open>2^w\<close>.)
\<close>

theorem encodeArithBinaryOp_MOD_wrap:
  fixes a b :: int and bits :: "32 word"
  defines "w \<equiv> unat bits"
  defines "lo \<equiv> (\<lambda>sg. if sg then - (2 ^ (w - 1)) else (0::int))"
  defines "hi \<equiv> (\<lambda>sg. if sg then 2 ^ (w - 1) - 1 else (2 ^ w - 1 :: int))"
  defines "exact \<equiv> (\<lambda>op. if op = Add then a + b else if op = Sub then a - b else a * b)"
  assumes enc: "encoding context = Encoding_MOD"
    and op: "op = Add \<or> op = Sub \<or> op = Mul"
    and bits: "bits \<noteq> 0"
    and lhs: "eval s lhs = Some (IntV a)" and rhs: "eval s rhs = Some (IntV b)"
    and a: "lo sg \<le> a" "a \<le> hi sg"
    and b: "lo sg \<le> b" "b \<le> hi sg"
  shows "\<exists>wrapped.
      eval s (expr (fst (encodeArithBinaryOp context node op lhs rhs bits sg))) = Some (IntV wrapped)
    \<and> eval s (cc (fst (encodeArithBinaryOp context node op lhs rhs bits sg)))
        = Some (BoolV (lo sg \<le> exact op \<and> exact op \<le> hi sg))
    \<and> lo sg \<le> wrapped \<and> wrapped \<le> hi sg
    \<and> wrapped mod 2 ^ w = exact op mod 2 ^ w
    \<and> (\<not> (lo sg \<le> exact op \<and> exact op \<le> hi sg) \<longrightarrow>
         (if \<not> sg then wrapped = exact op mod 2 ^ w
          else op \<noteq> Mul \<longrightarrow> wrapped = exact op - 2 ^ w \<or> wrapped = exact op + 2 ^ w))"
proof -
  let ?r = "fst (encodeArithBinaryOp context node op lhs rhs bits sg)"
  let ?L = "lo sg" and ?U = "hi sg" and ?e = "exact op"
  define H :: int where "H = 2 ^ (w - 1)"
  define M :: int where "M = 2 ^ w"
  have M: "M = 2 * H" using pow_bits_split [OF bits] by (simp add: M_def H_def w_def)
  have H: "0 < H" by (simp add: H_def)
  have Mpos: "0 < M" by (simp add: M_def)
  have k: "(2::int) ^ unat (bits - 1) = H" by (simp add: unat_pred [OF bits] H_def w_def)
  have w: "(2::int) ^ unat bits = M" by (simp add: M_def w_def)
  have "\<exists>x. eval s (expr ?r) = Some (IntV x) \<and> ?L \<le> x \<and> x \<le> ?U
      \<and> x mod M = ?e mod M
      \<and> (x = ?e \<longleftrightarrow> ?L \<le> ?e \<and> ?e \<le> ?U)
      \<and> (\<not> (?L \<le> ?e \<and> ?e \<le> ?U) \<longrightarrow>
         (if \<not> sg then x = ?e mod M
          else op \<noteq> Mul \<longrightarrow> x = ?e - M \<or> x = ?e + M))"
  proof (cases sg)
    case True
    have L: "?L = - H" and U: "?U = H - 1" using True by (simp_all add: lo_def hi_def H_def)
    have ra: "- H \<le> a" "a \<le> H - 1" and rb: "- H \<le> b" "b \<le> H - 1"
      using a b by (simp_all add: L U)
    from op show ?thesis
    proof (elim disjE)
      assume o: "op = Add"
      have e: "?e = a + b" using o by (simp add: exact_def)
      define R where "R = (if H - 1 < a + b then a + b - M else if a + b < - H then a + b + M else a + b)"
      have ev: "eval s (expr ?r) = Some (IntV R)"
        using eval_MOD_add [OF enc _ lhs rhs, of op node bits sg] o True
        by (simp add: k w R_def)
      have "- M \<le> a + b" "a + b \<le> M - 1" using ra rb M by simp_all
      from signed_wrap [OF H M this R_def] ev True
      show ?thesis unfolding L U e by (intro exI [of _ R]) simp
    next
      assume o: "op = Sub"
      have e: "?e = a - b" using o by (simp add: exact_def)
      define R where "R = (if H - 1 < a - b then a - b - M else if a - b < - H then a - b + M else a - b)"
      have ev: "eval s (expr ?r) = Some (IntV R)"
        using eval_MOD_sub [OF enc _ lhs rhs, of op node bits sg] o True
        by (simp add: k w R_def)
      have "- M \<le> a - b" "a - b \<le> M - 1" using ra rb M by simp_all
      from signed_wrap [OF H M this R_def] ev True
      show ?thesis unfolding L U e by (intro exI [of _ R]) simp
    next
      assume o: "op = Mul"
      have e: "?e = a * b" using o by (simp add: exact_def)
      define P where "P = ((if 0 \<le> a then a else M + a) * (if 0 \<le> b then b else M + b)) mod M"
      define R where "R = (if H - 1 < P then P - M else P)"
      have ev: "eval s (expr ?r) = Some (IntV R)"
        using eval_MOD_mul [OF enc _ lhs rhs, of op node bits sg] o True
        by (simp add: k w R_def P_def Let_def)
      from signed_mul_wrap [OF H M ra rb P_def R_def] ev True o
      show ?thesis unfolding L U e by (intro exI [of _ R]) simp
    qed
  next
    case False
    have L: "?L = 0" and U: "?U = M - 1" using False by (simp_all add: lo_def hi_def M_def)
    have ra: "0 \<le> a" "a \<le> M - 1" and rb: "0 \<le> b" "b \<le> M - 1"
      using a b by (simp_all add: L U)
    from op show ?thesis
    proof (elim disjE)
      assume o: "op = Add"
      have e: "?e = a + b" using o by (simp add: exact_def)
      define R where "R = (if M \<le> a + b then a + b - M else if a + b < 0 then a + b + M else a + b)"
      have ev: "eval s (expr ?r) = Some (IntV R)"
        using eval_MOD_add [OF enc _ lhs rhs, of op node bits sg] o False ra rb
        by (simp add: w R_def)
      have "- M \<le> a + b" "a + b \<le> 2 * M - 1" using ra rb by simp_all
      from unsigned_wrap [OF Mpos this R_def] ev False
      show ?thesis unfolding L U e by (intro exI [of _ R]) simp
    next
      assume o: "op = Sub"
      have e: "?e = a - b" using o by (simp add: exact_def)
      define R where "R = (if M \<le> a - b then a - b - M else if a - b < 0 then a - b + M else a - b)"
      have ev: "eval s (expr ?r) = Some (IntV R)"
        using eval_MOD_sub [OF enc _ lhs rhs, of op node bits sg] o False ra rb
        by (auto simp add: w R_def)
      have "- M \<le> a - b" "a - b \<le> 2 * M - 1" using ra rb by simp_all
      from unsigned_wrap [OF Mpos this R_def] ev False
      show ?thesis unfolding L U e by (intro exI [of _ R]) simp
    next
      assume o: "op = Mul"
      have e: "?e = a * b" using o by (simp add: exact_def)
      define R where "R = (if M \<le> a * b then (a * b) mod M else a * b)"
      have ev: "eval s (expr ?r) = Some (IntV R)"
        using eval_MOD_mul [OF enc _ lhs rhs, of op node bits sg] o False
        by (simp add: w R_def)
      from unsigned_mul_wrap [OF Mpos ra(1) rb(1) R_def] ev False
      show ?thesis unfolding L U e by (intro exI [of _ R]) simp
    qed
  qed
  then obtain x where x: "eval s (expr ?r) = Some (IntV x)" "?L \<le> x" "x \<le> ?U"
      "x mod M = ?e mod M"
      "x = ?e \<longleftrightarrow> ?L \<le> ?e \<and> ?e \<le> ?U"
      "\<not> (?L \<le> ?e \<and> ?e \<le> ?U) \<longrightarrow>
         (if \<not> sg then x = ?e mod M
          else op \<noteq> Mul \<longrightarrow> x = ?e - M \<or> x = ?e + M)"
    by blast
  have "eval s (cc ?r) = Some (BoolV (?e = x))"
    using eval_MOD_cc [OF enc _ lhs rhs x(1)] op by (auto simp: exact_def)
  with x show ?thesis unfolding M_def by (intro exI [of _ x]) auto
qed

theorem encodeArithBinaryOp_MOD_wrap_witness:
  "eval emptyState (expr (fst (encodeArithBinaryOp (exampleContext Encoding_MOD False) None Add
      (IntLit 127) (IntLit 1) 8 True))) = Some (IntV (- 128))
   \<and> eval emptyState (cc (fst (encodeArithBinaryOp (exampleContext Encoding_MOD False) None Add
      (IntLit 127) (IntLit 1) 8 True))) = Some (BoolV False)"
proof -
  have enc: "encoding (exampleContext Encoding_MOD False) = Encoding_MOD"
    by (simp add: exampleContext_def)
  have op: "Add = Add \<or> Add = Sub \<or> Add = Mul" by simp
  have bits: "(8 :: 32 word) \<noteq> 0" by simp
  have lhs: "eval emptyState (IntLit 127) = Some (IntV 127)"
    and rhs: "eval emptyState (IntLit 1) = Some (IntV 1)" by simp_all
  have rng: "(if True then - (2 ^ (unat (8 :: 32 word) - 1)) else (0::int)) \<le> 127"
    "(127::int) \<le> (if True then 2 ^ (unat (8 :: 32 word) - 1) - 1 else 2 ^ unat (8 :: 32 word) - 1)"
    "(if True then - (2 ^ (unat (8 :: 32 word) - 1)) else (0::int)) \<le> 1"
    "(1::int) \<le> (if True then 2 ^ (unat (8 :: 32 word) - 1) - 1 else 2 ^ unat (8 :: 32 word) - 1)"
    by simp_all
  from encodeArithBinaryOp_MOD_wrap [OF enc op bits lhs rhs rng, of None]
  show ?thesis by auto
qed

text \<open>
  Claim C1, as stated, fails for a signed multiplication: on 8 bits, \<open>127 * 127 = 16129\<close>
  is out of range, the condition is false and the wrapped result is \<open>1\<close>, which is
  neither \<open>16129 - 256\<close> nor \<open>16129 + 256\<close>.
\<close>

theorem encodeArithBinaryOp_MOD_mul_counterexample:
  "eval emptyState (expr (fst (encodeArithBinaryOp (exampleContext Encoding_MOD False) None Mul
      (IntLit 127) (IntLit 127) 8 True))) = Some (IntV 1)
   \<and> eval emptyState (cc (fst (encodeArithBinaryOp (exampleContext Encoding_MOD False) None Mul
      (IntLit 127) (IntLit 127) 8 True))) = Some (BoolV False)
   \<and> (1::int) \<noteq> 127 * 127 - 2 ^ 8 \<and> (1::int) \<noteq> 127 * 127 + 2 ^ 8"
  by (simp add: exampleContext_def encodeArithBinaryOp_def encodeArithBinaryOp_MOD_def
      modulo_def largestSigned_def euclid_mod_def Let_def)

section \<open>Range conditions of types\<close>

text \<open>
  The types for which the code has a width and a signedness are the integer types. For
  an expression \<open>e\<close> whose value is the integer \<open>x\<close>: on an unsigned \<open>w\<close>-bit integer type
  \<open>getTCCforExpr\<close> yields a condition equivalent to \<open>0 \<le> x \<le> 2^w - 1\<close>; on a signed one
  (\<open>w \<ge> 1\<close>) a condition equivalent to \<open>-2^(w-1) \<le> x \<le> 2^(w-1) - 1\<close>; on an enum type
  a condition equivalent to \<open>0 \<le> x < memberCount\<close>; and on a type that is not
  bit-precise the literal \<open>true\<close>.
\<close>

lemma getTCCforExpr_integer_enum_other:
  assumes x: "eval s e = Some (IntV x)"
  shows "(\<exists>c. getTCCforExpr e (IntegerType bits False) = Inr c
            \<and> eval s c = Some (BoolV (0 \<le> x \<and> x \<le> 2 ^ unat bits - 1)))
       \<and> (bits \<noteq> 0 \<longrightarrow>
            (\<exists>c. getTCCforExpr e (IntegerType bits True) = Inr c
               \<and> eval s c = Some (BoolV (- (2 ^ (unat bits - 1)) \<le> x \<and> x \<le> 2 ^ (unat bits - 1) - 1))))
       \<and> (\<exists>c. getTCCforExpr e (EnumType members) = Inr c
            \<and> eval s c = Some (BoolV (0 \<le> x \<and> x < int (length members))))
       \<and> (\<not> isBitPreciseType tp \<longrightarrow>
            getTCCforExpr e tp = Inr (BoolLit True) \<and> eval s (BoolLit True) = Some (BoolV True))"
proof (intro conjI impI)
  show "\<exists>c. getTCCforExpr e (IntegerType bits False) = Inr c
            \<and> eval s c = Some (BoolV (0 \<le> x \<and> x \<le> 2 ^ unat bits - 1))"
    using x by (simp add: getTCCforExpr_def)
next
  assume "bits \<noteq> 0"
  then have "unat (bits - 1) = unat bits - 1" by (simp add: unat_minus_one)
  then show "\<exists>c. getTCCforExpr e (IntegerType bits True) = Inr c
       \<and> eval s c = Some (BoolV (- (2 ^ (unat bits - 1)) \<le> x \<and> x \<le> 2 ^ (unat bits - 1) - 1))"
    using x by (simp add: getTCCforExpr_def smallestSigned_def largestSigned_def)
next
  show "\<exists>c. getTCCforExpr e (EnumType members) = Inr c
            \<and> eval s c = Some (BoolV (0 \<le> x \<and> x < int (length members)))"
    using x by (simp add: getTCCforExpr_def)
next
  assume "\<not> isBitPreciseType tp"
  then show "getTCCforExpr e tp = Inr (BoolLit True)"
    by (cases tp) (simp_all add: getTCCforExpr_def)
next
  show "eval s (BoolLit True) = Some (BoolV True)" by simp
qed

lemma getTCCforExpr_integer_enum_other_example:
  "eval emptyState (IntLit 200) = Some (IntV 200)
   \<and> (\<exists>c. getTCCforExpr (IntLit 200) (IntegerType 8 False) = Inr c \<and> eval emptyState c = Some (BoolV True))
   \<and> (\<exists>c. getTCCforExpr (IntLit 200) (IntegerType 8 True) = Inr c \<and> eval emptyState c = Some (BoolV False))
   \<and> (\<exists>c. getTCCforExpr (IntLit 200) (EnumType [''A'', ''B'']) = Inr c \<and> eval emptyState c = Some (BoolV False))
   \<and> getTCCforExpr (IntLit 200) OtherType = Inr (BoolLit True)"
proof -
  have h: "eval emptyState (IntLit 200) = Some (IntV 200)" by simp
  from getTCCforExpr_integer_enum_other [OF h, of 8 "[''A'', ''B'']" OtherType]
  show ?thesis by simp
qed

text \<open>
  Claim C3 says that the range condition of every fixed-width type is the range given by
  its width and its signedness; the fixed-size byte arrays are fixed-width types. The
  code does otherwise on them: \<open>isBitPreciseType\<close> accepts a FixedBytes type of any
  number of bytes, \<open>getTCCforExpr\<close> then asks \<open>getBits\<close> for its width, \<open>getBits\<close> has no
  case for FixedBytes, and the call ends with an internal compiler error, for every
  expression, where the unsigned integer type of 8 bits gets the condition
  \<open>0 \<le> e \<le> 255\<close>. It is the missing case of \<open>getBits\<close> that claim C10 observes on the
  accessor.
\<close>

theorem getTCCforExpr_FixedBytes_raises:
  "isBitPreciseType (FixedBytesType n)
   \<and> getTCCforExpr e (FixedBytesType n)
       = Inl (InternalCompilerError ''Trying to get bits for non-bitprecise type'')
   \<and> getTCCforExpr e (IntegerType 8 False) = Inr (And (Lte (IntLit 0) e) (Lte e (IntLit 255)))"
  by (simp add: getTCCforExpr_def)

text \<open>
  Claim C10 says that the width accessor returns the width of a FixedBytes type, so that
  the range condition of a FixedBytes-typed expression is the unsigned range. The code
  does otherwise: \<open>isBitPreciseType\<close> accepts \<open>bytes4\<close>, but \<open>getBits\<close> has no case for
  it and fails its assertion, and so does \<open>getTCCforExpr\<close>.
\<close>

theorem getBits_FixedBytes_fails:
  "isBitPreciseType (FixedBytesType 4)
   \<and> getBits (FixedBytesType 4) = Inl (InternalCompilerError ''Trying to get bits for non-bitprecise type'')
   \<and> getTCCforExpr (Id ''x'') (FixedBytesType 4)
       = Inl (InternalCompilerError ''Trying to get bits for non-bitprecise type'')"
  by (simp add: getTCCforExpr_def)

section \<open>Implicit conversion\<close>

text \<open>
  Let \<open>e\<close> be an expression that is not an integer literal, of a type with
  width \<open>fromWidth\<close> and signedness \<open>fromSigned\<close>, converted to a type with width
  \<open>toWidth\<close> and signedness \<open>toSigned\<close> (widths and signednesses as \<open>getBits\<close> and
  \<open>isSigned\<close> give them: the types are integers or enums). Then
  \<open>checkImplicitBvConversion\<close> returns \<open>e\<close> itself when width
  and signedness agree; otherwise a target narrower than the source is an internal
  compiler error; an unsigned source is zero-extended whatever the target's signedness;
  a signed source is sign-extended when the target is signed; and a signed source with
  an unsigned target is an internal compiler error.
\<close>

lemma checkImplicitBvConversion_integer_enum:
  assumes lit: "asIntLit e = None"
    and from_w: "getBits exprType = Inr fromWidth" and from_s: "isSigned exprType = Inr fromSigned"
    and to_w: "getBits targetType = Inr toWidth" and to_s: "isSigned targetType = Inr toSigned"
  shows "checkImplicitBvConversion e (Some exprType) (Some targetType) context =
     (if toWidth = fromWidth \<and> toSigned = fromSigned then Inr e
      else if toWidth < fromWidth then
        Inl (InternalCompilerError ''Implicit conversion to smaller type'')
      else if \<not> fromSigned then Inr (BvZeroExt e fromWidth toWidth)
      else if toSigned then Inr (BvSignExt e fromWidth toWidth)
      else Inl (InternalCompilerError ''Implicit conversion from signed to unsigned''))"
proof -
  have bp1: "isBitPreciseType exprType"
    using from_w by (cases exprType) simp_all
  have bp2: "isBitPreciseType targetType"
    using to_w by (cases targetType) simp_all
  have "checkImplicitBvConversion e (Some exprType) (Some targetType) context
      = convertBitPrecise e exprType targetType"
    using to_w by (cases targetType) simp_all
  also have "\<dots> = convertNonLiteral e exprType targetType toWidth"
    using bp1 bp2 lit to_w by (simp add: convertBitPrecise_def)
  also have "\<dots> = (if toWidth = fromWidth \<and> toSigned = fromSigned then Inr e
      else if toWidth < fromWidth then
        Inl (InternalCompilerError ''Implicit conversion to smaller type'')
      else if \<not> fromSigned then Inr (BvZeroExt e fromWidth toWidth)
      else if toSigned then Inr (BvSignExt e fromWidth toWidth)
      else Inl (InternalCompilerError ''Implicit conversion from signed to unsigned''))"
    unfolding convertNonLiteral_def from_w from_s to_s
    by (simp add: linorder_not_le)
  finally show ?thesis .
qed

lemma checkImplicitBvConversion_integer_enum_example:
  "checkImplicitBvConversion (Id ''x'') (Some (IntegerType 8 False)) (Some (IntegerType 16 True))
      (exampleContext Encoding_BV False) = Inr (BvZeroExt (Id ''x'') 8 16)"
proof -
  have h: "asIntLit (Id ''x'') = None" "getBits (IntegerType 8 False) = Inr 8"
    "isSigned (IntegerType 8 False) = Inr False" "getBits (IntegerType 16 True) = Inr 16"
    "isSigned (IntegerType 16 True) = Inr True" by simp_all
  from checkImplicitBvConversion_integer_enum [OF h] show ?thesis by simp
qed

text \<open>
  Claim C4 says that between two fixed-width types of the same width and signedness the
  conversion of a non-literal expression is the identity, and that it widens otherwise.
  The fixed-size byte arrays are fixed-width types, and on them the code does otherwise:
  with a FixedBytes target \<open>checkImplicitBvConversion\<close> asks \<open>getBits\<close> for the width of
  the target, with a FixedBytes source for the width of the source, and \<open>getBits\<close> has no
  case for FixedBytes. So the conversion to a FixedBytes type ends with an internal
  compiler error for every expression and every source type, in particular from \<open>bytes4\<close>
  to \<open>bytes4\<close>, where the claim has the identity; and so does the conversion of the
  variable \<open>x\<close> from \<open>bytes4\<close> to the unsigned integer type of 32 bits. It is the
  missing case of \<open>getBits\<close> that claim C10 observes on the accessor.
\<close>

theorem checkImplicitBvConversion_FixedBytes_raises:
  "checkImplicitBvConversion e (Some exprType) (Some (FixedBytesType n)) ctx
     = Inl (InternalCompilerError ''Trying to get bits for non-bitprecise type'')
   \<and> checkImplicitBvConversion (Id ''x'') (Some (FixedBytesType 4)) (Some (FixedBytesType 4)) ctx
     = Inl (InternalCompilerError ''Trying to get bits for non-bitprecise type'')
   \<and> checkImplicitBvConversion (Id ''x'') (Some (FixedBytesType 4)) (Some (IntegerType 32 False)) ctx
     = Inl (InternalCompilerError ''Trying to get bits for non-bitprecise type'')"
  by (simp add: convertBitPrecise_def convertNonLiteral_def)

section \<open>Modular negation and exponentiation\<close>

text \<open>
  Claim C7. In the modular encoding, unary minus on an operand of value \<open>x\<close> and width
  \<open>w \<ge> 1\<close> reports no error and returns: for a signed operand, \<open>x\<close> itself when
  \<open>x = -2^(w-1)\<close> and \<open>-x\<close> otherwise; for an unsigned operand, \<open>0\<close> when \<open>x = 0\<close> and
  \<open>2^w - x\<close> otherwise; in both cases with a correctness condition that holds iff the
  unwrapped negation \<open>-x\<close> equals the returned value.
\<close>

theorem encodeArithUnaryOp_MOD_negation:
  assumes enc: "encoding context = Encoding_MOD"
    and bits: "bits \<noteq> 0"
    and x: "eval s subExpr = Some (IntV x)"
  shows "snd (encodeArithUnaryOp context node Sub subExpr bits sg) = context
    \<and> eval s (expr (fst (encodeArithUnaryOp context node Sub subExpr bits sg)))
        = Some (IntV (if sg then (if x = - (2 ^ (unat bits - 1)) then x else - x)
                      else (if x = 0 then 0 else 2 ^ unat bits - x)))
    \<and> eval s (cc (fst (encodeArithUnaryOp context node Sub subExpr bits sg)))
        = Some (BoolV (- x = (if sg then (if x = - (2 ^ (unat bits - 1)) then x else - x)
                             else (if x = 0 then 0 else 2 ^ unat bits - x))))"
proof -
  have k: "unat (bits - 1) = unat bits - 1" using bits by (simp add: unat_minus_one)
  show ?thesis
    using enc x
    by (simp add: encodeArithUnaryOp_def Let_def smallestSigned_def modulo_def k)
qed

theorem encodeArithUnaryOp_MOD_negation_witness:
  "eval emptyState (expr (fst (encodeArithUnaryOp (exampleContext Encoding_MOD False) None Sub
      (IntLit (- 128)) 8 True))) = Some (IntV (- 128))
   \<and> eval emptyState (cc (fst (encodeArithUnaryOp (exampleContext Encoding_MOD False) None Sub
      (IntLit (- 128)) 8 True))) = Some (BoolV False)"
proof -
  have enc: "encoding (exampleContext Encoding_MOD False) = Encoding_MOD"
    by (simp add: exampleContext_def)
  have bits: "(8 :: 32 word) \<noteq> 0" by simp
  have x: "eval emptyState (IntLit (- 128)) = Some (IntV (- 128))" by simp
  from encodeArithUnaryOp_MOD_negation [OF enc bits x, of None True]
  show ?thesis by simp
qed






section \<open>Unsupported operators\<close>

lemma errors_reportError:
  "errors (reportError context node msg) = errors context @ [(node, msg)]"
  by (simp add: reportError_def)

text \<open>
  Claim C9. \<open>encodeArithBinaryOp\<close> always returns. A combination of encoding and
  operator is supported when the source has a case for it: the four arithmetic operators
  and the four order comparisons (with their assignment forms) in every encoding,
  remainder in the integer encoding, the bitwise operators and the shifts \<open><<\<close>, \<open>>>\<close> in
  the bit-vector encoding, and exponentiation when both operands are literals (bit-vector
  literals in the bit-vector encoding, integer literals otherwise). On a supported
  combination nothing is reported and the result is not the sentinel. On every other
  combination exactly one error is reported for the associated node, and the result is
  the sentinel \<open>__ERROR\<close> without correctness condition; in particular for an
  exponentiation with a non-literal operand in the bit-vector encoding.
\<close>

theorem encodeArithBinaryOp_unsupported:
  fixes ctx :: BoogieContext and node :: "ASTNode option" and op :: Token
    and lhs rhs :: Expr and bits :: "32 word" and sg :: bool
  defines "r \<equiv> encodeArithBinaryOp ctx node op lhs rhs bits sg"
  defines "literals \<equiv>
     (if encoding ctx = Encoding_BV then asBvLit lhs \<noteq> None \<and> asBvLit rhs \<noteq> None
      else asIntLit lhs \<noteq> None \<and> asIntLit rhs \<noteq> None)"
  defines "supported \<equiv>
       (op = Exp \<and> literals)
     \<or> op \<in> {Add, AssignAdd, Sub, AssignSub, Mul, AssignMul, Div, AssignDiv,
              LessThan, GreaterThan, LessThanOrEqual, GreaterThanOrEqual}
     \<or> (encoding ctx = Encoding_INT \<and> op \<in> {Mod_tok, AssignMod})
     \<or> (encoding ctx = Encoding_BV
          \<and> op \<in> {BitAnd, AssignBitAnd, BitOr, AssignBitOr, BitXor, AssignBitXor,
                   SAR, AssignSar, SHL, AssignShl})"
  shows "(supported \<longrightarrow> snd r = ctx \<and> expr (fst r) \<noteq> Id ERR_EXPR)
     \<and> (\<not> supported \<longrightarrow>
          (\<exists>msg. errors (snd r) = errors ctx @ [(node, msg)]
                 \<and> snd r = reportError ctx node msg)
          \<and> fst r = \<lparr>expr = Id ERR_EXPR, cc = Nullptr\<rparr>)
     \<and> (encoding ctx = Encoding_BV \<and> op = Exp \<and> (asBvLit lhs = None \<or> asBvLit rhs = None) \<longrightarrow>
          r = (\<lparr>expr = Id ERR_EXPR, cc = Nullptr\<rparr>,
               reportError ctx node ''Exponentiation is not supported in 'bv' encoding''))"
proof (cases "encoding ctx")
  case Encoding_INT
  then have r: "r = encodeArithBinaryOp_INT ctx node op lhs rhs"
    by (simp add: r_def encodeArithBinaryOp_def)
  show ?thesis
    unfolding r supported_def literals_def
    using Encoding_INT
    by (cases op)
       (auto simp: encodeArithBinaryOp_INT_def plain_def unsupported_def errors_reportError
             split: option.splits)
next
  case Encoding_BV
  then have r: "r = encodeArithBinaryOp_BV ctx node op lhs rhs bits sg"
    by (simp add: r_def encodeArithBinaryOp_def)
  show ?thesis
    unfolding r supported_def literals_def
    using Encoding_BV
    by (cases op)
       (auto simp: encodeArithBinaryOp_BV_def plain_def unsupported_def errors_reportError
             intLit_def Let_def split: option.splits)
next
  case Encoding_MOD
  then have r: "r = encodeArithBinaryOp_MOD ctx node op lhs rhs bits sg"
    by (simp add: r_def encodeArithBinaryOp_def)
  show ?thesis
    unfolding r supported_def literals_def
    using Encoding_MOD
    by (cases op)
       (auto simp: encodeArithBinaryOp_MOD_def plain_def unsupported_def errors_reportError
             intLit_def Let_def wrapSigned_def split: option.splits)
qed

theorem encodeArithBinaryOp_unsupported_witness:
  "encodeArithBinaryOp (exampleContext Encoding_BV False) (Some 7) Exp (Id ''x'') (BvLit 2 8) 8 False
     = (\<lparr>expr = Id ERR_EXPR, cc = Nullptr\<rparr>,
        reportError (exampleContext Encoding_BV False) (Some 7)
          ''Exponentiation is not supported in 'bv' encoding'')
   \<and> errors (snd (encodeArithBinaryOp (exampleContext Encoding_BV False) (Some 7) Exp
                    (Id ''x'') (BvLit 2 8) 8 False))
     = [(Some 7, ''Exponentiation is not supported in 'bv' encoding'')]"
proof -
  have h: "encoding (exampleContext Encoding_BV False) = Encoding_BV \<and> Exp = Exp
      \<and> (asBvLit (Id ''x'') = None \<or> asBvLit (BvLit 2 8) = None)"
    by (simp add: exampleContext_def)
  from encodeArithBinaryOp_unsupported [where ctx = "exampleContext Encoding_BV False" and op = Exp
      and lhs = "Id ''x''" and rhs = "BvLit 2 8" and node = "Some 7" and bits = 8 and sg = False] h
  have "encodeArithBinaryOp (exampleContext Encoding_BV False) (Some 7) Exp (Id ''x'') (BvLit 2 8) 8 False
     = (\<lparr>expr = Id ERR_EXPR, cc = Nullptr\<rparr>,
        reportError (exampleContext Encoding_BV False) (Some 7)
          ''Exponentiation is not supported in 'bv' encoding'')" by blast
  then show ?thesis by (simp add: errors_reportError exampleContext_def)
qed

section \<open>Select chains\<close>

lemma select_val_Some:
  "select_val a b = Some r \<Longrightarrow> \<exists>f k. a = Some (MapV f) \<and> b = Some (IntV k) \<and> r = f k"
  by (cases "(a, b)" rule: select_val.cases) auto

lemma eval_select_cong:
  "eval s a = eval s b \<Longrightarrow> eval s (foldl ArrSel a idxs) = eval s (foldl ArrSel b idxs)"
  by (induction idxs arbitrary: a b) simp_all

lemma eval_select_updated:
  assumes "eval s u = Some (MapV (m(iv := x)))" "eval s b = Some (MapV m)"
  shows "eval s (ArrSel u i) = (if eval s i = Some (IntV iv) then Some x else eval s (ArrSel b i))"
proof (cases "eval s i")
  case None
  then show ?thesis using assms by simp
next
  case (Some w)
  then show ?thesis using assms by (cases w) simp_all
qed

lemma selectToUpdate_three:
  "\<not> isSelExpr base \<Longrightarrow>
   selectToUpdate (ArrSel (ArrSel (ArrSel base i) j) k) v =
     Inr (ArrUpd base i (ArrUpd (ArrSel base i) j (ArrUpd (ArrSel (ArrSel base i) j) k v)))"
  by simp

text \<open>
  Claim C6. For a three-level select chain \<open>base[i][j][k]\<close> (\<open>base\<close> itself not a select)
  that has a value in the state, and a new value \<open>v\<close>, \<open>selectToUpdate\<close> returns the
  update chain \<open>base[i := base[i][j := base[i][j][k := v]]]\<close>; selecting \<open>[i][j][k]\<close>
  from it yields the value of \<open>v\<close>, and selecting any index sequence whose first index
  differs in value from \<open>i\<close> yields what the same selection yields on \<open>base\<close>.
\<close>

theorem selectToUpdate_three_levels:
  assumes base: "\<not> isSelExpr base"
    and old: "eval s (ArrSel (ArrSel (ArrSel base i) j) k) = Some old"
    and v: "eval s v = Some newValue"
  shows "\<exists>upd. selectToUpdate (ArrSel (ArrSel (ArrSel base i) j) k) v = Inr upd
     \<and> upd = ArrUpd base i (ArrUpd (ArrSel base i) j (ArrUpd (ArrSel (ArrSel base i) j) k v))
     \<and> eval s (ArrSel (ArrSel (ArrSel upd i) j) k) = Some newValue
     \<and> (\<forall>i' rest. eval s i' \<noteq> eval s i \<longrightarrow>
           eval s (foldl ArrSel upd (i' # rest)) = eval s (foldl ArrSel base (i' # rest)))"
proof -
  let ?upd = "ArrUpd base i (ArrUpd (ArrSel base i) j (ArrUpd (ArrSel (ArrSel base i) j) k v))"
  from old have "select_val (eval s (ArrSel (ArrSel base i) j)) (eval s k) = Some old"
    by simp
  from select_val_Some [OF this]
  obtain m2 kv where m2: "eval s (ArrSel (ArrSel base i) j) = Some (MapV m2)"
      and kv: "eval s k = Some (IntV kv)" by blast
  from m2 have "select_val (eval s (ArrSel base i)) (eval s j) = Some (MapV m2)"
    by simp
  from select_val_Some [OF this]
  obtain m1 jv where m1: "eval s (ArrSel base i) = Some (MapV m1)"
      and jv: "eval s j = Some (IntV jv)" and m1j: "m1 jv = MapV m2" by metis
  from m1 have "select_val (eval s base) (eval s i) = Some (MapV m1)"
    by simp
  from select_val_Some [OF this]
  obtain m0 iv where m0: "eval s base = Some (MapV m0)"
      and iv: "eval s i = Some (IntV iv)" and m0i: "m0 iv = MapV m1" by metis
  have upd: "eval s ?upd = Some (MapV (m0(iv := MapV (m1(jv := MapV (m2(kv := newValue)))))))"
    using m0 iv m0i jv m1j kv v by simp
  have s1: "eval s (ArrSel ?upd i) = Some (MapV (m1(jv := MapV (m2(kv := newValue)))))"
    by (simp only: eval_select_updated [OF upd m0] iv simp_thms if_True)
  have s2: "eval s (ArrSel (ArrSel ?upd i) j) = Some (MapV (m2(kv := newValue)))"
    by (simp only: eval_select_updated [OF s1 m1] jv simp_thms if_True)
  have sel: "eval s (ArrSel (ArrSel (ArrSel ?upd i) j) k) = Some newValue"
    by (simp only: eval_select_updated [OF s2 m2] kv simp_thms if_True)
  have frame: "eval s (foldl ArrSel ?upd (i' # rest)) = eval s (foldl ArrSel base (i' # rest))"
    if "eval s i' \<noteq> eval s i" for i' rest
  proof -
    have "eval s i' \<noteq> Some (IntV iv)" using that iv by simp
    then have "eval s (ArrSel ?upd i') = eval s (ArrSel base i')"
      by (simp only: eval_select_updated [OF upd m0] simp_thms if_False)
    then show ?thesis unfolding foldl_Cons by (rule eval_select_cong)
  qed
  show ?thesis
    using selectToUpdate_three [OF base] sel frame by blast
qed

theorem selectToUpdate_three_levels_witness:
  "\<exists>upd. selectToUpdate (ArrSel (ArrSel (ArrSel (Id ''m'') (IntLit 1)) (IntLit 2)) (IntLit 3)) (IntLit 42) = Inr upd
     \<and> eval nestedMapState (ArrSel (ArrSel (ArrSel upd (IntLit 1)) (IntLit 2)) (IntLit 3)) = Some (IntV 42)
     \<and> eval nestedMapState (foldl ArrSel upd [IntLit 5, IntLit 2, IntLit 3]) = Some (IntV 10)"
proof -
  have base: "\<not> isSelExpr (Id ''m'')" by simp
  have old: "eval nestedMapState (ArrSel (ArrSel (ArrSel (Id ''m'') (IntLit 1)) (IntLit 2)) (IntLit 3)) = Some (IntV 6)"
    by (simp add: nestedMapState_def)
  have v: "eval nestedMapState (IntLit 42) = Some (IntV 42)" by simp
  have d: "eval nestedMapState (IntLit 5) \<noteq> eval nestedMapState (IntLit 1)" by simp
  have b: "eval nestedMapState (foldl ArrSel (Id ''m'') [IntLit 5, IntLit 2, IntLit 3]) = Some (IntV 10)"
    by (simp add: nestedMapState_def)
  from selectToUpdate_three_levels [OF base old v] d b
  show ?thesis by metis
qed

section \<open>Executions of the built-in procedures\<close>




























section \<open>Transfer\<close>




section \<open>Call and send\<close>






end
